theory Spec2Isabelle
  imports Complex_Main
begin

section \<open>JavaScript numbers\<close>

text \<open>
  The program computes with JavaScript numbers.  Finite values are modelled exactly (as
  reals, without the rounding of IEEE doubles and without a signed zero); the special
  values that a division can produce (\<open>NaN\<close> for \<open>0/0\<close>, an infinity for \<open>x/0\<close>) are
  modelled explicitly, because HOL's own division returns \<open>0\<close> there.
\<close>

datatype jsnum = Finite real | Infinity bool | NaN

fun js_add :: "jsnum \<Rightarrow> jsnum \<Rightarrow> jsnum" where
  "js_add NaN _ = NaN"
| "js_add _ NaN = NaN"
| "js_add (Finite a) (Finite b) = Finite (a + b)"
| "js_add (Finite a) (Infinity s) = Infinity s"
| "js_add (Infinity s) (Finite b) = Infinity s"
| "js_add (Infinity s) (Infinity t) = (if s = t then Infinity s else NaN)"

fun js_mul :: "jsnum \<Rightarrow> jsnum \<Rightarrow> jsnum" where
  "js_mul NaN _ = NaN"
| "js_mul _ NaN = NaN"
| "js_mul (Finite a) (Finite b) = Finite (a * b)"
| "js_mul (Finite a) (Infinity s) = (if a = 0 then NaN else Infinity (s = (0 < a)))"
| "js_mul (Infinity s) (Finite b) = (if b = 0 then NaN else Infinity (s = (0 < b)))"
| "js_mul (Infinity s) (Infinity t) = Infinity (s = t)"

fun js_div :: "jsnum \<Rightarrow> jsnum \<Rightarrow> jsnum" where
  "js_div NaN _ = NaN"
| "js_div _ NaN = NaN"
| "js_div (Finite a) (Finite b) =
     (if b \<noteq> 0 then Finite (a / b) else if a = 0 then NaN else Infinity (0 < a))"
| "js_div (Finite a) (Infinity s) = Finite 0"
| "js_div (Infinity s) (Finite b) = Infinity (s = (0 \<le> b))"
| "js_div (Infinity s) (Infinity t) = NaN"

text \<open>The comparison \<open>x > y\<close>: every comparison with \<open>NaN\<close> is false.\<close>

fun js_gt :: "jsnum \<Rightarrow> jsnum \<Rightarrow> bool" where
  "js_gt NaN _ = False"
| "js_gt _ NaN = False"
| "js_gt (Finite a) (Finite b) = (b < a)"
| "js_gt (Finite a) (Infinity s) = (\<not> s)"
| "js_gt (Infinity s) (Finite b) = s"
| "js_gt (Infinity s) (Infinity t) = (s \<and> \<not> t)"

text \<open>\<open>xs.reduce((sum, x) => sum + x, 0)\<close> over finite numbers.\<close>

definition reduce_sum :: "real list \<Rightarrow> real" where
  "reduce_sum xs = fold (\<lambda>x sum. sum + x) xs 0"

section \<open>Data model (\<open>src/types/index.ts\<close>)\<close>

record Citation =
  title :: string
  url :: string
  date :: "string option"
  relevance :: "string option"

record ExpertResponse =
  position :: string
  reasoning :: string
  confidence :: real
  sources :: "Citation list"
  expertise_area :: string
  agent_id :: string

text \<open>
  The checks of \<open>ExpertResponseSchema\<close> on lengths and ranges.  (The schema also wants
  every source's url to parse as a url; that check is not modelled.)
\<close>

definition validExpertResponse :: "ExpertResponse \<Rightarrow> bool" where
  "validExpertResponse e =
     (length (position e) \<ge> 10 \<and> length (reasoning e) \<ge> 50
      \<and> 1 \<le> confidence e \<and> confidence e \<le> 10 \<and> length (sources e) \<ge> 1)"

record ExpertCluster =
  theme :: string
  positions :: "string list"
  expert_ids :: "string list"
  confidence_range :: "real \<times> real"
  supporting_sources :: "Citation list"

record RoundSynthesis =
  round_number :: nat
  clusters :: "ExpertCluster list"
  consensus_areas :: "string list"
  divergence_areas :: "string list"
  average_confidence :: jsnum
  participation_count :: nat
  key_insights :: "string list"

section \<open>OrchestratorAgent\<close>

text \<open>
  The object parsed from the clustering call's JSON text.  A field that is absent (or
  not of the shape the prompt asks for) is \<open>None\<close>.
\<close>

record RawCluster =
  raw_theme :: "string option"
  raw_positions :: "string list option"
  raw_expert_ids :: "string list option"

record SynthesisData =
  data_clusters :: "RawCluster list option"
  data_consensus_areas :: "string list option"
  data_divergence_areas :: "string list option"
  data_key_insights :: "string list option"

text \<open>JavaScript truthiness of an optional string: absent and \<open>""\<close> are falsy.\<close>

definition truthy :: "string option \<Rightarrow> bool" where
  "truthy s = (case s of None \<Rightarrow> False | Some t \<Rightarrow> t \<noteq> [])"

text \<open>
  The nested \<open>forEach\<close> of \<open>processClusters\<close> that collects the sources of the cluster's
  experts: a source is pushed unless one with the same url is already there.
\<close>

fun collectSources :: "Citation list \<Rightarrow> Citation list \<Rightarrow> Citation list" where
  "collectSources supportingSources [] = supportingSources"
| "collectSources supportingSources (source # rest) =
     collectSources
       (if list_ex (\<lambda>existing. url existing = url source) supportingSources
        then supportingSources
        else supportingSources @
          [\<lparr>title = title source, url = url source, date = date source,
            relevance = Some (if truthy (relevance source) then the (relevance source)
                              else ''Supporting evidence'')\<rparr>])
       rest"

text \<open>
  The body of the \<open>forEach\<close> of \<open>processClusters\<close> for one raw cluster: \<open>None\<close> where the
  source returns early without pushing a cluster.
\<close>

definition processCluster :: "ExpertResponse list \<Rightarrow> RawCluster \<Rightarrow> ExpertCluster option" where
  "processCluster expertResponses rawCluster =
     (if \<not> truthy (raw_theme rawCluster) then None
      else case raw_expert_ids rawCluster of
        None \<Rightarrow> None
      | Some ids \<Rightarrow>
          (case filter (\<lambda>response. agent_id response \<in> set ids) expertResponses of
             [] \<Rightarrow> None
           | expert # experts \<Rightarrow>
               Some \<lparr>theme = the (raw_theme rawCluster),
                     positions = (case raw_positions rawCluster of
                                    Some ps \<Rightarrow> ps
                                  | None \<Rightarrow> map position (expert # experts)),
                     expert_ids = ids,
                     confidence_range =
                       (fold min (map confidence experts) (confidence expert),
                        fold max (map confidence experts) (confidence expert)),
                     supporting_sources =
                       take 10 (collectSources [] (concat (map sources (expert # experts))))\<rparr>))"

fun processClusters :: "RawCluster list \<Rightarrow> ExpertResponse list \<Rightarrow> ExpertCluster list" where
  "processClusters [] expertResponses = []"
| "processClusters (rawCluster # rest) expertResponses =
     (case processCluster expertResponses rawCluster of
        None \<Rightarrow> processClusters rest expertResponses
      | Some cluster \<Rightarrow> cluster # processClusters rest expertResponses)"

text \<open>
  \<open>synthesizeRound\<close>.  The generation call and the parsing of its text are external; their
  outcome is the argument \<open>generated\<close>: \<open>Inl msg\<close> when the call or the parse throws,
  \<open>Inr data\<close> with the parsed object otherwise.  Every error is rethrown with the prefix
  of the \<open>catch\<close> block.
\<close>

definition synthesizeRound ::
  "nat \<Rightarrow> ExpertResponse list \<Rightarrow> string + SynthesisData \<Rightarrow> string + RoundSynthesis" where
  "synthesizeRound roundNumber expertResponses generated =
     (let confidenceScores = map confidence expertResponses in
      case generated of
        Inl msg \<Rightarrow> Inl (''Failed to synthesize round: '' @ msg)
      | Inr synthesisData \<Rightarrow>
          (let averageConfidence =
                 js_div (Finite (reduce_sum confidenceScores))
                        (Finite (real (length confidenceScores)))
           in Inr \<lparr>round_number = roundNumber,
                   clusters = processClusters
                     (case data_clusters synthesisData of Some cs \<Rightarrow> cs | None \<Rightarrow> [])
                     expertResponses,
                   consensus_areas =
                     (case data_consensus_areas synthesisData of Some xs \<Rightarrow> xs | None \<Rightarrow> []),
                   divergence_areas =
                     (case data_divergence_areas synthesisData of Some xs \<Rightarrow> xs | None \<Rightarrow> []),
                   average_confidence = averageConfidence,
                   participation_count = length expertResponses,
                   key_insights =
                     (case data_key_insights synthesisData of Some xs \<Rightarrow> xs | None \<Rightarrow> [])\<rparr>))"

text \<open>
  \<open>identifyDominantClusters\<close>.  \<open>Array.prototype.sort\<close> is stable and sorts the array it is
  called on in place, so the function changes the synthesis it is given: the model
  returns the themes together with the synthesis as it is after the call.  The stable
  sort is an insertion sort driven by the comparator of the source.
\<close>

definition compareClusters :: "ExpertCluster \<Rightarrow> ExpertCluster \<Rightarrow> real" where
  "compareClusters a b =
     (let sizeA = length (expert_ids a); sizeB = length (expert_ids b) in
      if sizeA \<noteq> sizeB then real sizeB - real sizeA
      else (let avgConfidenceA = (fst (confidence_range a) + snd (confidence_range a)) / 2;
                avgConfidenceB = (fst (confidence_range b) + snd (confidence_range b)) / 2
            in avgConfidenceB - avgConfidenceA))"

fun insert_sorted :: "('a \<Rightarrow> 'a \<Rightarrow> real) \<Rightarrow> 'a \<Rightarrow> 'a list \<Rightarrow> 'a list" where
  "insert_sorted cmp x [] = [x]"
| "insert_sorted cmp x (y # ys) =
     (if cmp x y \<le> 0 then x # y # ys else y # insert_sorted cmp x ys)"

definition stable_sort :: "('a \<Rightarrow> 'a \<Rightarrow> real) \<Rightarrow> 'a list \<Rightarrow> 'a list" where
  "stable_sort cmp xs = foldr (insert_sorted cmp) xs []"

definition identifyDominantClusters :: "RoundSynthesis \<Rightarrow> string list \<times> RoundSynthesis" where
  "identifyDominantClusters synthesis =
     (if length (clusters synthesis) = 0 then ([], synthesis)
      else (let sortedClusters = stable_sort compareClusters (clusters synthesis)
            in (map theme (take 3 sortedClusters),
                synthesis\<lparr>clusters := sortedClusters\<rparr>)))"

section \<open>Strings\<close>

text \<open>
  A JavaScript string is a sequence of 16-bit code units.  A \<open>char\<close> stands for a code unit
  below 256 (the code points of ASCII and Latin-1), so a \<open>string\<close> is a JavaScript string
  all of whose code units are below 256; text with other code units is outside the type.
  On these strings the functions below are their JavaScript namesakes.

  \<open>toLowerCase\<close> changes the capital letters: \<open>A\<close>..\<open>Z\<close> and, in Latin-1, \<open>U+00C0\<close>..\<open>U+00D6\<close> and
  \<open>U+00D8\<close>..\<open>U+00DE\<close>; each becomes the code unit 32 above it (bit 5 set).

  \<open>isSpace\<close> is the class \<open>\s\<close> of a regular expression, which is also what \<open>trim\<close> removes:
  below 256 these are tab, line feed, vertical tab, form feed, carriage return, space and
  the no-break space \<open>U+00A0\<close>.
\<close>

definition capitals :: "char list" where
  "capitals =
     ''ABCDEFGHIJKLMNOPQRSTUVWXYZ'' @
     [CHR 0xC0, CHR 0xC1, CHR 0xC2, CHR 0xC3, CHR 0xC4, CHR 0xC5, CHR 0xC6, CHR 0xC7,
      CHR 0xC8, CHR 0xC9, CHR 0xCA, CHR 0xCB, CHR 0xCC, CHR 0xCD, CHR 0xCE, CHR 0xCF,
      CHR 0xD0, CHR 0xD1, CHR 0xD2, CHR 0xD3, CHR 0xD4, CHR 0xD5, CHR 0xD6,
      CHR 0xD8, CHR 0xD9, CHR 0xDA, CHR 0xDB, CHR 0xDC, CHR 0xDD, CHR 0xDE]"

definition toLowerChar :: "char \<Rightarrow> char" where
  "toLowerChar c =
     (if c \<in> set capitals
      then (case c of Char b0 b1 b2 b3 b4 b5 b6 b7 \<Rightarrow> Char b0 b1 b2 b3 b4 True b6 b7)
      else c)"

definition toLowerCase :: "string \<Rightarrow> string" where
  "toLowerCase s = map toLowerChar s"

definition isSpace :: "char \<Rightarrow> bool" where
  "isSpace c =
     (c \<in> set [CHR 0x09, CHR 0x0A, CHR 0x0B, CHR 0x0C, CHR 0x0D, CHR 0x20, CHR 0xA0])"

text \<open>
  \<open>s.split(/\s+/)\<close>: the pieces between maximal runs of white space, with an empty piece
  where the string starts or ends with white space.  \<open>cur\<close> is the piece being read.
\<close>

fun split_ws :: "string \<Rightarrow> string \<Rightarrow> string list" where
  "split_ws cur [] = [cur]"
| "split_ws cur (c # cs) =
     (if isSpace c
      then (case cs of
              [] \<Rightarrow> cur # split_ws [] cs
            | d # _ \<Rightarrow> if isSpace d then split_ws cur cs else cur # split_ws [] cs)
      else split_ws (cur @ [c]) cs)"

text \<open>\<open>s.includes(t)\<close>.\<close>

fun startsWith :: "string \<Rightarrow> string \<Rightarrow> bool" where
  "startsWith s [] = True"
| "startsWith [] (d # ds) = False"
| "startsWith (c # cs) (d # ds) = (c = d \<and> startsWith cs ds)"

fun str_includes :: "string \<Rightarrow> string \<Rightarrow> bool" where
  "str_includes [] t = (t = [])"
| "str_includes (c # cs) t = (startsWith (c # cs) t \<or> str_includes cs t)"

section \<open>ConvergenceTracker (\<open>src/utils/convergence-tracker.ts\<close>)\<close>

text \<open>
  The tracker's state.  \<open>expertHistories\<close> is a JavaScript \<open>Map\<close>, which iterates in the
  order in which its keys were first set: an association list in that order.
\<close>

record ConvergenceTracker =
  roundHistory :: "RoundSynthesis list"
  expertHistories :: "(string \<times> ExpertResponse list) list"

definition newTracker :: ConvergenceTracker where
  "newTracker = \<lparr>roundHistory = [], expertHistories = []\<rparr>"

text \<open>The body of the \<open>forEach\<close> of \<open>addRound\<close>: \<open>has\<close>, \<open>set\<close>, \<open>get\<close> and \<open>push\<close>.\<close>

fun pushResponse ::
  "ExpertResponse \<Rightarrow> (string \<times> ExpertResponse list) list \<Rightarrow> (string \<times> ExpertResponse list) list"
where
  "pushResponse response [] = [(agent_id response, [response])]"
| "pushResponse response ((k, history) # m) =
     (if k = agent_id response then (k, history @ [response]) # m
      else (k, history) # pushResponse response m)"

definition addRound ::
  "ConvergenceTracker \<Rightarrow> RoundSynthesis \<Rightarrow> ExpertResponse list \<Rightarrow> ConvergenceTracker" where
  "addRound t synthesis expertResponses =
     \<lparr>roundHistory = roundHistory t @ [synthesis],
      expertHistories = fold pushResponse expertResponses (expertHistories t)\<rparr>"

text \<open>
  The words of a position as \<open>calculatePositionStability\<close> takes them:
  \<open>new Set(p.split(/\s+/).filter(word => word.length > 3))\<close> of the lower-cased position.
  A \<open>Set\<close> is its list of distinct elements in insertion order.
\<close>

definition keyWords :: "string \<Rightarrow> string list" where
  "keyWords lowered = remdups (filter (\<lambda>word. length word > 3) (split_ws [] lowered))"

text \<open>
  The word sets and the similarity of the last two positions of a history of at least
  two responses.
\<close>

definition lastWords :: "ExpertResponse list \<Rightarrow> string list" where
  "lastWords history = keyWords (toLowerCase (position (history ! (length history - 1))))"

definition previousWords :: "ExpertResponse list \<Rightarrow> string list" where
  "previousWords history = keyWords (toLowerCase (position (history ! (length history - 2))))"

definition similarity :: "ExpertResponse list \<Rightarrow> jsnum" where
  "similarity history =
     (let overlap = filter (\<lambda>word. word \<in> set (previousWords history)) (lastWords history)
      in js_div (Finite (real (length overlap)))
                (Finite (real (max (length (lastWords history))
                                   (length (previousWords history))))))"

text \<open>
  The body of the \<open>forEach\<close> of \<open>calculatePositionStability\<close>, on the pair of counters
  \<open>(totalExperts, stableExperts)\<close>.
\<close>

definition countStable :: "string \<times> ExpertResponse list \<Rightarrow> nat \<times> nat \<Rightarrow> nat \<times> nat" where
  "countStable entry counters =
     (case (entry, counters) of
        ((k, history), (totalExperts, stableExperts)) \<Rightarrow>
          if length history \<ge> 2
          then (totalExperts + 1,
                if js_gt (similarity history) (Finite 0.7) then stableExperts + 1
                else stableExperts)
          else (totalExperts, stableExperts))"

definition calculatePositionStability :: "ConvergenceTracker \<Rightarrow> jsnum" where
  "calculatePositionStability t =
     (if length (roundHistory t) < 2 then Finite 1
      else case fold countStable (expertHistories t) (0, 0) of
        (totalExperts, stableExperts) \<Rightarrow>
          if totalExperts > 0
          then js_div (Finite (real stableExperts)) (Finite (real totalExperts))
          else Finite 1)"

definition calculateConsensusClarity :: "ConvergenceTracker \<Rightarrow> jsnum" where
  "calculateConsensusClarity t =
     (if length (roundHistory t) = 0 then Finite 0
      else
        (let currentRound = roundHistory t ! (length (roundHistory t) - 1);
             consensusRatio =
               js_div (Finite (real (length (consensus_areas currentRound))))
                 (Finite (real (max 1 (length (consensus_areas currentRound)
                                       + length (divergence_areas currentRound)))));
             maxClusterSize =
               (case map (\<lambda>cluster. length (expert_ids cluster)) (clusters currentRound) of
                  [] \<Rightarrow> 0
                | n # ns \<Rightarrow> fold max ns n);
             dominanceRatio =
               js_div (Finite (real maxClusterSize))
                 (Finite (real (max 1 (participation_count currentRound))));
             confidenceRatio = js_div (average_confidence currentRound) (Finite 10)
         in js_add (js_add (js_mul consensusRatio (Finite 0.4))
                           (js_mul dominanceRatio (Finite 0.3)))
                   (js_mul confidenceRatio (Finite 0.3))))"

text \<open>
  \<open>calculateCitationOverlap\<close>.  The two nested \<open>for\<close> loops run over the index pairs
  \<open>i < j\<close>; \<open>totalPossiblePairs\<close> counts them and \<open>overlappingPairs\<close> counts those whose
  url sets share an element.  (The lists \<open>allCitations\<close> and \<open>urlUsage\<close> of the source are
  built and never read.)
\<close>

definition indexPairs :: "nat \<Rightarrow> (nat \<times> nat) list" where
  "indexPairs n = concat (map (\<lambda>i. map (\<lambda>j. (i, j)) [i + 1 ..< n]) [0 ..< n])"

definition urlsOverlap :: "Citation list \<Rightarrow> Citation list \<Rightarrow> bool" where
  "urlsOverlap citationsI citationsJ =
     (let expertI = remdups (map url citationsI);
          expertJ = remdups (map url citationsJ);
          overlap = filter (\<lambda>u. u \<in> set expertJ) expertI
      in length overlap > 0)"

definition latestCitations :: "(string \<times> ExpertResponse list) list \<Rightarrow> Citation list list" where
  "latestCitations histories =
     map (\<lambda>(k, history).
            map (\<lambda>source. \<lparr>title = title source, url = url source,
                            date = (if truthy (date source) then date source else None),
                            relevance = (if truthy (relevance source) then relevance source
                                         else None)\<rparr>)
                (sources (history ! (length history - 1))))
         (filter (\<lambda>(k, history). length history > 0) histories)"

definition calculateCitationOverlap :: "ConvergenceTracker \<Rightarrow> jsnum" where
  "calculateCitationOverlap t =
     (if length (expertHistories t) = 0 then Finite 0
      else
        (let expertCitations = latestCitations (expertHistories t) in
         if length expertCitations < 2 then Finite 1
         else
           (let pairs = indexPairs (length expertCitations);
                totalPossiblePairs = length pairs;
                overlappingPairs =
                  length (filter (\<lambda>(i, j). urlsOverlap (expertCitations ! i) (expertCitations ! j))
                            pairs)
            in if totalPossiblePairs > 0
               then js_div (Finite (real overlappingPairs)) (Finite (real totalPossiblePairs))
               else Finite 0)))"

section \<open>The final report (\<open>src/main.ts\<close>)\<close>

record ContrarianResponse =
  critique :: string
  alternative_framework :: string
  blind_spots :: "string list"
  contrarian_id :: string

record DissentingView =
  view_position :: string
  view_expert_ids :: "string list"
  view_reasoning :: string
  view_sources :: "Citation list"

text \<open>One entry of \<open>roundResults\<close>; \<open>failedExperts\<close> is an optional field.\<close>

record RoundResult =
  expertResponses :: "ExpertResponse list"
  synthesis :: RoundSynthesis
  contrarianResponses :: "ContrarianResponse list"
  failedExperts :: "(string \<times> string) list option"

text \<open>
  The expert ids of \<open>largestCluster\<close> in \<open>identifyDissentingViews\<close>: the \<open>reduce\<close> starts
  from the first cluster and replaces it only by a strictly larger one; without clusters
  the variable keeps its initial value, an object with no expert ids.
\<close>

definition largestClusterIds :: "RoundSynthesis \<Rightarrow> string list" where
  "largestClusterIds synth =
     (case clusters synth of
        [] \<Rightarrow> []
      | first # rest \<Rightarrow>
          expert_ids
            (fold (\<lambda>current largest.
                     if length (expert_ids current) > length (expert_ids largest)
                     then current else largest)
                  (first # rest) first))"

definition identifyDissentingViews ::
  "RoundSynthesis \<Rightarrow> ExpertResponse list \<Rightarrow> DissentingView list" where
  "identifyDissentingViews synth responses =
     (let dissentingExperts =
            filter (\<lambda>response. agent_id response \<notin> set (largestClusterIds synth)) responses
      in if length dissentingExperts = 0 then []
         else map (\<lambda>expert. \<lparr>view_position = position expert,
                              view_expert_ids = [agent_id expert],
                              view_reasoning = reasoning expert,
                              view_sources = sources expert\<rparr>)
                  dissentingExperts)"

text \<open>
  The fields of the report that \<open>generateFinalReportWithSupport\<close> computes from the round
  results.  (The prompt, the generated consensus summary, the metrics and the time stamp
  are copied from elsewhere and left out.)  The function throws when no round was
  recorded: \<open>calculateMetrics\<close> refuses an empty tracker, and \<open>finalRound\<close> is undefined for
  an empty \<open>roundResults\<close>.
\<close>

record DelphiReport =
  expert_positions :: "ExpertResponse list"
  contrarian_observations :: "ContrarianResponse list"
  dissenting_views :: "DissentingView list"
  round_history :: "RoundSynthesis list"
  failed_experts :: "(string \<times> string) list"

definition generateFinalReportWithSupport ::
  "ConvergenceTracker \<Rightarrow> RoundResult list \<Rightarrow> string + DelphiReport" where
  "generateFinalReportWithSupport tracker roundResults =
     (if length (roundHistory tracker) = 0 then Inl ''No rounds to analyze''
      else if length roundResults = 0
      then Inl ''TypeError: Cannot read properties of undefined''
      else
        (let finalRound = roundResults ! (length roundResults - 1);
             allExpertResponses = concat (map expertResponses roundResults);
             allContrarianResponses = concat (map contrarianResponses roundResults);
             failed = concat (map (\<lambda>r. case failedExperts r of Some f \<Rightarrow> f | None \<Rightarrow> [])
                                  roundResults);
             dissentingViews = identifyDissentingViews (synthesis finalRound) allExpertResponses
         in Inr \<lparr>expert_positions = expertResponses finalRound,
                 contrarian_observations = allContrarianResponses,
                 dissenting_views = dissentingViews,
                 round_history = map synthesis roundResults,
                 failed_experts = failed\<rparr>))"

section \<open>safeChatCompletion (\<open>src/utils/openai-helpers.ts\<close>)\<close>

text \<open>
  The request object, with the fields the wrapper reads or rewrites; an absent property
  is \<open>None\<close>.
\<close>

record Request =
  model :: "string option"
  temperature :: "real option"
  max_tokens :: "nat option"
  max_completion_tokens :: "nat option"
  messages :: "string list"

record ChatMessage =
  content :: "string option"

record Choice =
  message :: "ChatMessage option"

record ChatCompletion =
  choices :: "Choice list option"

text \<open>
  A thrown error as the \<open>catch\<close> block reads it: \<open>code\<close> is \<open>err?.code || err?.error?.code\<close>,
  \<open>param\<close> is \<open>err?.param || err?.error?.param\<close> and \<open>msgFull\<close> is
  \<open>err?.message || String(err)\<close>.
\<close>

record ApiError =
  code :: "string option"
  param :: "string option"
  msgFull :: string

datatype Failure = Rethrown ApiError | Exhausted

text \<open>
  The service: what the \<open>k\<close>-th call of \<open>openai.chat.completions.create\<close> (counted from
  \<open>0\<close>) does when it is given a request.
\<close>

type_synonym Service = "nat \<Rightarrow> Request \<Rightarrow> ApiError + ChatCompletion"

text \<open>
  Objects live in a heap, a list indexed by address, so that the caller's object and the
  wrapper's clones are distinct objects.  \<open>r_ref\<close> is the address the variable \<open>r\<close> is
  bound to; \<open>sent\<close> lists the requests passed to the service so far, as they were at the call.
\<close>

record Run =
  heap :: "Request list"
  r_ref :: nat
  sent :: "Request list"

definition alloc :: "Request \<Rightarrow> Run \<Rightarrow> Run" where
  "alloc obj st = st\<lparr>heap := heap st @ [obj], r_ref := length (heap st)\<rparr>"

definition setModel :: "string \<Rightarrow> Run \<Rightarrow> Run" where
  "setModel m st = st\<lparr>heap := (heap st)[r_ref st := (heap st ! r_ref st)\<lparr>model := Some m\<rparr>]\<rparr>"

definition create :: "Service \<Rightarrow> Run \<Rightarrow> (ApiError + ChatCompletion) \<times> Run" where
  "create service st =
     (service (length (sent st)) (heap st ! r_ref st), st\<lparr>sent := sent st @ [heap st ! r_ref st]\<rparr>)"

definition trim :: "string \<Rightarrow> string" where
  "trim s = rev (dropWhile isSpace (rev (dropWhile isSpace s)))"

text \<open>\<open>noChoices || noMessage || noContent\<close> of \<open>runOnce\<close>.\<close>

definition noUsableText :: "ChatCompletion \<Rightarrow> bool" where
  "noUsableText res =
     (let noChoices = (case choices res of None \<Rightarrow> True | Some cs \<Rightarrow> length cs = 0);
          firstMessage = (case choices res of Some (c # cs) \<Rightarrow> message c | _ \<Rightarrow> None);
          noMessage = (firstMessage = None);
          noContent = (case firstMessage of
                         None \<Rightarrow> True
                       | Some m \<Rightarrow> \<not> truthy (content m) \<or> trim (the (content m)) = [])
      in noChoices \<or> noMessage \<or> noContent)"

definition runOnce :: "Service \<Rightarrow> Run \<Rightarrow> (ApiError + ChatCompletion) \<times> Run" where
  "runOnce service st =
     (case create service st of
        (Inl err, st1) \<Rightarrow> (Inl err, st1)
      | (Inr res, st1) \<Rightarrow>
          if noUsableText res \<and> truthy (model (heap st1 ! r_ref st1))
             \<and> model (heap st1 ! r_ref st1) \<noteq> Some ''gpt-4o''
          then create service (setModel ''gpt-4o'' st1)
          else (Inr res, st1))"

text \<open>
  The \<open>catch\<close> block: \<open>Some st'\<close> where it transforms the request and continues with the next
  attempt, \<open>None\<close> where it rethrows.  Taking a property out by destructuring
  (\<open>const { temperature, ...rest } = r; r = rest\<close>) makes a new object; assigning to
  \<open>r.model\<close> writes to the object \<open>r\<close> is bound to.
\<close>

definition onError :: "ApiError \<Rightarrow> Run \<Rightarrow> Run option" where
  "onError err st =
     (let msg = toLowerCase (msgFull err); cur = heap st ! r_ref st in
      if (code err = Some ''unsupported_value'' \<or> str_includes msg ''unsupported''
            \<or> str_includes msg ''does not support'')
         \<and> (param err = Some ''temperature'' \<or> str_includes msg ''temperature'')
         \<and> temperature cur \<noteq> None
      then Some (alloc (cur\<lparr>temperature := None\<rparr>) st)
      else if (code err = Some ''unsupported_parameter'' \<or> str_includes msg ''unsupported parameter'')
         \<and> (param err = Some ''max_tokens'' \<or> str_includes msg ''max_tokens'')
         \<and> max_tokens cur \<noteq> None
      then Some (alloc (cur\<lparr>max_tokens := None, max_completion_tokens := max_tokens cur\<rparr>) st)
      else if (code err = Some ''unsupported_parameter'' \<or> str_includes msg ''unsupported parameter'')
         \<and> (param err = Some ''max_completion_tokens'' \<or> str_includes msg ''max_completion_tokens'')
         \<and> max_completion_tokens cur \<noteq> None
      then Some (alloc (cur\<lparr>max_completion_tokens := None, max_tokens := max_completion_tokens cur\<rparr>) st)
      else if param err = Some ''model'' \<or> code err = Some ''model_not_found''
         \<or> (str_includes msg ''model''
             \<and> (str_includes msg ''not found'' \<or> str_includes msg ''does not exist''
                 \<or> str_includes msg ''unknown'' \<or> str_includes msg ''unsupported''))
      then Some (setModel ''gpt-4o'' st)
      else if str_includes msg ''responses api'' \<or> str_includes msg ''use the responses''
         \<or> str_includes msg ''responses endpoint''
      then Some (setModel ''gpt-4o'' st)
      else None)"

text \<open>The \<open>for\<close> loop, by the number of attempts that are left.\<close>

fun attempts :: "nat \<Rightarrow> Service \<Rightarrow> Run \<Rightarrow> (Failure + ChatCompletion) \<times> Run" where
  "attempts 0 service st = (Inl Exhausted, st)"
| "attempts (Suc n) service st =
     (case runOnce service st of
        (Inr res, st1) \<Rightarrow> (Inr res, st1)
      | (Inl err, st1) \<Rightarrow>
          (case onError err st1 of
             None \<Rightarrow> (Inl (Rethrown err), st1)
           | Some st2 \<Rightarrow> attempts n service st2))"

text \<open>
  \<open>safeChatCompletion\<close>, called on a heap with a reference \<open>req\<close> to the caller's object
  (\<open>None\<close> for a null or undefined argument): \<open>r\<close> starts as a new object with the
  properties of \<open>req || {}\<close>.
\<close>

definition emptyRequest :: Request where
  "emptyRequest = \<lparr>model = None, temperature = None, max_tokens = None,
                   max_completion_tokens = None, messages = []\<rparr>"

definition safeChatCompletion ::
  "Service \<Rightarrow> Request list \<Rightarrow> nat option \<Rightarrow> (Failure + ChatCompletion) \<times> Run" where
  "safeChatCompletion service objects req =
     attempts 5 service
       (alloc (case req of None \<Rightarrow> emptyRequest | Some a \<Rightarrow> objects ! a)
              \<lparr>heap = objects, r_ref = 0, sent = []\<rparr>)"

section \<open>PerplexityTool.search (\<open>src/tools/perplexity.ts\<close>)\<close>

text \<open>
  An error object as the \<open>catch\<close> block of \<open>search\<close> reads it: its message, and the http
  response it carries, if any, with the status and the \<open>error\<close> field of the body.
\<close>

record HttpResponse =
  status :: nat
  data_error :: "string option"

record JsError =
  err_message :: string
  response :: "HttpResponse option"

text \<open>
  The message both the response interceptor of the constructor and the \<open>catch\<close> block
  of \<open>search\<close> build: \<open>error.response?.data?.error || error.message\<close> after a fixed prefix.
\<close>

definition failureMessage :: "JsError \<Rightarrow> string" where
  "failureMessage error =
     ''Perplexity API failed: '' @
       (case response error of
          None \<Rightarrow> err_message error
        | Some resp \<Rightarrow> if truthy (data_error resp) then the (data_error resp)
                       else err_message error)"

text \<open>
  The rejection handler of the interceptor throws \<open>new Error(...)\<close>: an error with a
  message and no \<open>response\<close> property.
\<close>

definition interceptor :: "JsError \<Rightarrow> JsError" where
  "interceptor error = \<lparr>err_message = failureMessage error, response = None\<rparr>"

text \<open>
  \<open>this.client.post\<close> for the attempt numbered \<open>k\<close>: the outcome of the transport
  (\<open>Inl\<close> an axios error, \<open>Inr\<close> the response data) passed through the interceptor.
\<close>

definition post :: "(nat \<Rightarrow> JsError + 'd) \<Rightarrow> nat \<Rightarrow> JsError + 'd" where
  "post transport k =
     (case transport k of Inl error \<Rightarrow> Inl (interceptor error) | Inr d \<Rightarrow> Inr d)"

text \<open>
  What a call of \<open>search\<close> does: its result, the number of requests it made and the
  pauses it slept, in milliseconds.
\<close>

record 'a SearchRun =
  outcome :: "JsError + 'a"
  requests :: nat
  pauses :: "nat list"

definition maxRetries :: nat where
  "maxRetries = 3"

text \<open>
  The \<open>while\<close> loop of \<open>search\<close>, on the variables \<open>attempt\<close> and \<open>lastError\<close> and the list of
  pauses slept so far.  \<open>extract\<close> stands for the rest of the \<open>try\<close> block, which builds the
  result from the response data and may throw as well.
\<close>

function searchLoop ::
  "(nat \<Rightarrow> JsError + 'd) \<Rightarrow> ('d \<Rightarrow> JsError + 'a) \<Rightarrow> nat \<Rightarrow> nat list \<Rightarrow> JsError option
     \<Rightarrow> 'a SearchRun" where
  "searchLoop transport extract attempt slept lastError =
     (if attempt < maxRetries
      then
        (case (case post transport attempt of Inl e \<Rightarrow> Inl e | Inr d \<Rightarrow> extract d) of
           Inr result \<Rightarrow> \<lparr>outcome = Inr result, requests = attempt + 1, pauses = slept\<rparr>
         | Inl error \<Rightarrow>
             (let isTimeout = (err_message error \<noteq> [] \<and> str_includes (err_message error) ''timeout'');
                  is5xx = (case response error of
                             None \<Rightarrow> False
                           | Some resp \<Rightarrow> status resp \<ge> 500 \<and> status resp < 600)
              in if (isTimeout \<or> is5xx) \<and> attempt < maxRetries - 1
                 then searchLoop transport extract (attempt + 1) (slept @ [1000 * 2 ^ attempt])
                        (Some error)
                 else \<lparr>outcome = Inl \<lparr>err_message = failureMessage error, response = None\<rparr>,
                       requests = attempt + 1, pauses = slept\<rparr>))
      else \<lparr>outcome = Inl \<lparr>err_message = ''Perplexity API failed after 3 attempts: '' @
                              (case lastError of None \<Rightarrow> ''null'' | Some e \<Rightarrow> err_message e),
                            response = None\<rparr>,
            requests = attempt, pauses = slept\<rparr>)"
  by pat_completeness auto
termination
  by (relation "measure (\<lambda>(transport, extract, attempt, slept, lastError). maxRetries - attempt)")
    auto

definition search :: "(nat \<Rightarrow> JsError + 'd) \<Rightarrow> ('d \<Rightarrow> JsError + 'a) \<Rightarrow> 'a SearchRun" where
  "search transport extract = searchLoop transport extract 0 [] None"

section \<open>Auxiliary predicates\<close>

text \<open>
  Two predicates used in the proofs about \<open>safeChatCompletion\<close>.  \<open>owns n st\<close>: the object
  the variable \<open>r\<close> is bound to exists and is not one of the first \<open>n\<close> objects of the
  heap (those that existed before the call).  \<open>answersLast service res st\<close>: \<open>res\<close> is what
  the service answered to the last request sent, and if it has no usable text that
  request named the model \<open>gpt-4o\<close> or no model.
\<close>

definition owns :: "nat \<Rightarrow> Run \<Rightarrow> bool" where
  "owns n st = (n \<le> r_ref st \<and> r_ref st < length (heap st))"


section \<open>Sample data\<close>

text \<open>Inputs for the concrete instances below.\<close>

definition expert_saying :: "string \<Rightarrow> string \<Rightarrow> string list \<Rightarrow> ExpertResponse" where
  "expert_saying ident pos urls =
     \<lparr>position = pos,
      reasoning = ''The evidence gathered so far supports this position on balance.'',
      confidence = 8,
      sources = map (\<lambda>u. \<lparr>title = ''Source'', url = u, date = None, relevance = None\<rparr>) urls,
      expertise_area = ''Policy Researcher'', agent_id = ident\<rparr>"

definition round_of :: "nat \<Rightarrow> RoundSynthesis" where
  "round_of n = \<lparr>round_number = n, clusters = [], consensus_areas = [], divergence_areas = [],
                 average_confidence = Finite 8, participation_count = 1, key_insights = []\<rparr>"

definition unanimous_round :: "string list \<Rightarrow> RoundSynthesis" where
  "unanimous_round agreed =
     \<lparr>round_number = 1,
      clusters = [\<lparr>theme = ''Staged adoption'', positions = [],
                   expert_ids = [''e1'', ''e2'', ''e3'', ''e4'', ''e5''],
                   confidence_range = (8, 8), supporting_sources = []\<rparr>],
      consensus_areas = agreed, divergence_areas = [],
      average_confidence = Finite 8, participation_count = 5, key_insights = []\<rparr>"

definition five_experts :: "ExpertResponse list" where
  "five_experts =
     [expert_saying ''e1'' ''Adopt the policy in stages'' [''https://example.com/a''],
      expert_saying ''e2'' ''Stage the adoption by region'' [''https://example.com/b''],
      expert_saying ''e3'' ''Begin with a staged pilot'' [''https://example.com/c''],
      expert_saying ''e4'' ''Phase the policy in slowly'' [''https://example.com/d''],
      expert_saying ''e5'' ''Roll out in three stages'' [''https://example.com/e'']]"

definition cluster_small :: ExpertCluster where
  "cluster_small = \<lparr>theme = ''Wait and see'', positions = [''Wait for more evidence''],
     expert_ids = [''expert-c''], confidence_range = (6, 6), supporting_sources = []\<rparr>"

definition cluster_large :: ExpertCluster where
  "cluster_large = \<lparr>theme = ''Staged adoption'', positions = [''Adopt the policy in stages''],
     expert_ids = [''expert-a'', ''expert-b''], confidence_range = (7, 9),
     supporting_sources = []\<rparr>"



definition sample_request :: Request where
  "sample_request = \<lparr>model = Some ''o3-mini'', temperature = Some 0.3, max_tokens = Some 2000,
                      max_completion_tokens = None, messages = [''Summarise the round'']\<rparr>"

definition text_response :: "string \<Rightarrow> ChatCompletion" where
  "text_response s = \<lparr>choices = Some [\<lparr>message = Some \<lparr>content = Some s\<rparr>\<rparr>]\<rparr>"



definition picky_service :: Service where
  "picky_service k rq =
     (if temperature rq \<noteq> None
      then Inl \<lparr>code = Some ''unsupported_value'', param = Some ''temperature'',
                msgFull = ''Bad value''\<rparr>
      else if max_tokens rq \<noteq> None
      then Inl \<lparr>code = Some ''unsupported_parameter'', param = Some ''max_tokens'',
                msgFull = ''Bad parameter''\<rparr>
      else if model rq \<noteq> Some ''gpt-4o''
      then Inl \<lparr>code = Some ''model_not_found'', param = None, msgFull = ''No such model''\<rparr>
      else Inr (text_response ''ok''))"

definition roundsWith :: "ExpertCluster list \<Rightarrow> RoundResult list" where
  "roundsWith finalClusters =
     [\<lparr>expertResponses = [expert_saying ''expert-x'' ''Delay the rollout entirely'' [''https://example.com/a'']],
       synthesis = round_of 1, contrarianResponses = [], failedExperts = Some []\<rparr>,
      \<lparr>expertResponses = [expert_saying ''expert-x'' ''Pilot the rollout first'' [''https://example.com/a''],
                          expert_saying ''expert-y'' ''Adopt staged rollout'' [''https://example.com/a'']],
       synthesis = (round_of 2)\<lparr>clusters := finalClusters\<rparr>,
       contrarianResponses = [], failedExperts = Some []\<rparr>]"

definition trackerAfter :: "RoundResult list \<Rightarrow> ConvergenceTracker" where
  "trackerAfter roundResults =
     fold (\<lambda>result tracker. addRound tracker (synthesis result) (expertResponses result))
          roundResults newTracker"

definition cluster_y :: ExpertCluster where
  "cluster_y = \<lparr>theme = ''Staged adoption'', positions = [''Adopt staged rollout''],
     expert_ids = [''expert-y''], confidence_range = (8, 8), supporting_sources = []\<rparr>"

section \<open>Properties of the orchestrator\<close>

lemma reduce_sum_fold: "fold (\<lambda>x sum. sum + x) xs (a::real) = a + sum_list xs"
  by (induction xs arbitrary: a) simp_all

lemma reduce_sum_sum_list: "reduce_sum xs = sum_list xs"
  by (simp add: reduce_sum_def reduce_sum_fold)

text \<open>For a round with at least one response the average is the arithmetic mean.\<close>

lemma synthesizeRound_average_nonempty:
  assumes "rs \<noteq> []" and "synthesizeRound n rs (Inr d) = Inr s"
  shows "average_confidence s = Finite (sum_list (map confidence rs) / real (length rs))"
  using assms by (auto simp: synthesizeRound_def reduce_sum_sum_list)

text \<open>
  C2 (the code misses the guard the claim asks for).  For a round in which every expert
  failed, \<open>synthesizeRound\<close> divides \<open>0\<close> by \<open>0\<close>: the synthesis it returns has
  \<open>average_confidence = NaN\<close>, not a defined value such as \<open>0\<close>.
\<close>

theorem synthesizeRound_no_experts_NaN:
  "synthesizeRound 1 []
     (Inr \<lparr>data_clusters = Some [], data_consensus_areas = Some [],
           data_divergence_areas = Some [], data_key_insights = Some []\<rparr>)
   = Inr \<lparr>round_number = 1, clusters = [], consensus_areas = [], divergence_areas = [],
          average_confidence = NaN, participation_count = 0, key_insights = []\<rparr>"
  by (simp add: synthesizeRound_def reduce_sum_def)








text \<open>
  C9 (the code breaks the claim).  \<open>identifyDominantClusters\<close> sorts the \<open>clusters\<close> array of
  the synthesis it is given in place: a synthesis produced with the clusters in the
  order small, large has them in the order large, small after the call.
\<close>

theorem identifyDominantClusters_reorders_clusters:
  "identifyDominantClusters
     \<lparr>round_number = 1, clusters = [cluster_small, cluster_large], consensus_areas = [],
      divergence_areas = [], average_confidence = Finite 7, participation_count = 3,
      key_insights = []\<rparr>
   = ([''Staged adoption'', ''Wait and see''],
      \<lparr>round_number = 1, clusters = [cluster_large, cluster_small], consensus_areas = [],
       divergence_areas = [], average_confidence = Finite 7, participation_count = 3,
       key_insights = []\<rparr>)
   \<and> [cluster_large, cluster_small] \<noteq> [cluster_small, cluster_large]"
  by (simp add: identifyDominantClusters_def stable_sort_def compareClusters_def
      cluster_small_def cluster_large_def)

text \<open>The call changes nothing but the order of the clusters.\<close>

lemma set_insert_sorted: "set (insert_sorted cmp x xs) = insert x (set xs)"
  by (induction xs) auto

lemma length_insert_sorted: "length (insert_sorted cmp x xs) = Suc (length xs)"
  by (induction xs) auto

lemma stable_sort_same_elements:
  "set (stable_sort cmp xs) = set xs \<and> length (stable_sort cmp xs) = length xs"
  by (induction xs) (simp_all add: stable_sort_def set_insert_sorted length_insert_sorted)

lemma identifyDominantClusters_only_reorders:
  "snd (identifyDominantClusters s) = s\<lparr>clusters := stable_sort compareClusters (clusters s)\<rparr>"
  by (simp add: identifyDominantClusters_def stable_sort_def Let_def)

section \<open>Properties of the convergence tracker\<close>

lemma fold_max_Max: "fold max ns (n::nat) = Max (insert n (set ns))"
  using Max.set_eq_fold[of n ns] by simp

text \<open>
  C8 (corrected).  The formula holds, but the scenario of the claim does not fix the
  value: with five experts, one cluster of all five ids, no divergence area and an
  average confidence of 8, the clarity is 0.54 when the round has no consensus area
  either.
\<close>

theorem consensus_clarity_no_consensus_area_counterexample:
  "calculateConsensusClarity (addRound newTracker (unanimous_round []) five_experts) = Finite 0.54
   \<and> Finite 0.54 \<noteq> Finite 0.94"
  by (simp add: calculateConsensusClarity_def addRound_def newTracker_def unanimous_round_def)

text \<open>
  C8 as amended.  On the latest round \<open>cur\<close>, with a finite average confidence \<open>a\<close>,
  \<open>consensus_clarity\<close> is 0.4 times the share of consensus areas among consensus and
  divergence areas (over at least 1), plus 0.3 times the size of the largest cluster
  over \<open>max(1, participation_count)\<close>, plus 0.3 times \<open>a / 10\<close>.  For a round with 5
  experts, one cluster of 5 expert ids, no divergence area, at least one consensus area
  and average confidence 8 the value is 0.94.
\<close>

theorem consensus_clarity_formula:
  assumes "roundHistory t \<noteq> []"
    and "cur = last (roundHistory t)"
    and "average_confidence cur = Finite a"
  shows "calculateConsensusClarity t =
           Finite (0.4 * (real (length (consensus_areas cur))
                          / real (max 1 (length (consensus_areas cur) + length (divergence_areas cur))))
                   + 0.3 * (real (Max (insert 0 (set (map (\<lambda>c. length (expert_ids c)) (clusters cur)))))
                            / real (max 1 (participation_count cur)))
                   + 0.3 * (a / 10))
         \<and> (participation_count cur = 5 \<and> (\<exists>c. clusters cur = [c] \<and> length (expert_ids c) = 5)
              \<and> divergence_areas cur = [] \<and> consensus_areas cur \<noteq> [] \<and> a = 8
             \<longrightarrow> calculateConsensusClarity t = Finite 0.94)"
proof -
  let ?sizes = "map (\<lambda>c. length (expert_ids c)) (clusters cur)"
  have cur: "roundHistory t ! (length (roundHistory t) - 1) = cur"
    using assms(1,2) by (simp add: last_conv_nth)
  have m: "(case ?sizes of [] \<Rightarrow> 0 | n # ns \<Rightarrow> fold max ns n) = Max (insert 0 (set ?sizes))"
  proof (cases ?sizes)
    case Nil
    then show ?thesis by simp
  next
    case (Cons n ns)
    have "Max (insert 0 (insert n (set ns))) = Max (insert n (set ns))"
      by (subst Max_insert) auto
    with Cons show ?thesis by (simp add: fold_max_Max)
  qed
  have formula: "calculateConsensusClarity t =
           Finite (0.4 * (real (length (consensus_areas cur))
                          / real (max 1 (length (consensus_areas cur) + length (divergence_areas cur))))
                   + 0.3 * (real (Max (insert 0 (set ?sizes)))
                            / real (max 1 (participation_count cur)))
                   + 0.3 * (a / 10))"
    using assms(1,3) unfolding calculateConsensusClarity_def cur Let_def m
    by (simp add: algebra_simps)
  have "calculateConsensusClarity t = Finite 0.94"
    if "participation_count cur = 5" "\<exists>c. clusters cur = [c] \<and> length (expert_ids c) = 5"
       "divergence_areas cur = []" "consensus_areas cur \<noteq> []" "a = 8"
  proof -
    from that(2) obtain c where c: "clusters cur = [c]" "length (expert_ids c) = 5" by blast
    show ?thesis unfolding formula using that(1,3,4,5) c
      by (cases "consensus_areas cur") (simp_all add: max_def)
  qed
  with formula show ?thesis by blast
qed

theorem consensus_clarity_formula_witness:
  "calculateConsensusClarity
     (addRound newTracker (unanimous_round [''Stage the rollout'']) five_experts)
   = Finite 0.94"
proof -
  let ?cur = "unanimous_round [''Stage the rollout'']"
  let ?t = "addRound newTracker ?cur five_experts"
  have h1: "roundHistory ?t \<noteq> []" by (simp add: addRound_def)
  have h2: "?cur = last (roundHistory ?t)" by (simp add: addRound_def)
  have h3: "average_confidence ?cur = Finite 8" by (simp add: unanimous_round_def)
  have scenario: "participation_count ?cur = 5
      \<and> (\<exists>c. clusters ?cur = [c] \<and> length (expert_ids c) = 5)
      \<and> divergence_areas ?cur = [] \<and> consensus_areas ?cur \<noteq> [] \<and> (8::real) = 8"
    by (simp add: unanimous_round_def)
  from consensus_clarity_formula[OF h1 h2 h3] scenario show ?thesis by blast
qed

lemma fold_countStable:
  "fold countStable hs (tot, stb) =
     (tot + length (filter (\<lambda>(k, h). 2 \<le> length h) hs),
      stb + length (filter (\<lambda>(k, h). 2 \<le> length h \<and> js_gt (similarity h) (Finite 0.7)) hs))"
  by (induction hs arbitrary: tot stb) (simp_all add: countStable_def split: prod.splits)

lemma similarity_card:
  "similarity h =
     js_div (Finite (real (card (set (lastWords h) \<inter> set (previousWords h)))))
            (Finite (real (max (card (set (lastWords h))) (card (set (previousWords h))))))"
proof -
  have d: "distinct (lastWords h)" "distinct (previousWords h)"
    by (simp_all add: lastWords_def previousWords_def keyWords_def)
  have "length (filter (\<lambda>w. w \<in> set (previousWords h)) (lastWords h))
          = card (set (lastWords h) \<inter> set (previousWords h))"
    using d(1) by (simp add: distinct_length_filter Int_def conj_commute)
  moreover have "length (lastWords h) = card (set (lastWords h))"
    "length (previousWords h) = card (set (previousWords h))"
    using d by (simp_all add: distinct_card)
  ultimately show ?thesis by (simp add: similarity_def)
qed

lemma stable_identical:
  assumes "position (h ! (length h - 1)) = position (h ! (length h - 2))"
    and "lastWords h \<noteq> []"
  shows "js_gt (similarity h) (Finite 0.7)"
proof -
  have eq: "previousWords h = lastWords h"
    using assms(1) by (simp add: lastWords_def previousWords_def)
  show ?thesis using assms(2) by (simp add: similarity_card eq)
qed

lemma unstable_disjoint:
  assumes "set (lastWords h) \<inter> set (previousWords h) = {}"
  shows "\<not> js_gt (similarity h) (Finite 0.7)"
  using assms by (simp add: similarity_card)

text \<open>
  With at least two rounds recorded, \<open>calculatePositionStability\<close> returns the share of
  stable experts among the experts with at least two responses (1 when there is none),
  where an expert is stable when \<open>|intersection| / max(|set_last|, |set_prev|)\<close> of the word
  sets of its last two positions exceeds 0.7.  It returns 1 when every such expert's last
  two positions are identical and contain a word of more than three characters, and 0
  when there is such an expert and the word sets of every such expert's last two
  positions are disjoint.
\<close>

lemma position_stability_cases:
  assumes "2 \<le> length (roundHistory t)"
  shows "calculatePositionStability t =
           (let eligible = filter (\<lambda>(k, h). 2 \<le> length h) (expertHistories t);
                stableOnes = filter (\<lambda>(k, h).
                  js_gt (js_div (Finite (real (card (set (lastWords h) \<inter> set (previousWords h)))))
                                (Finite (real (max (card (set (lastWords h)))
                                                   (card (set (previousWords h)))))))
                        (Finite 0.7)) eligible
            in if eligible = [] then Finite 1
               else Finite (real (length stableOnes) / real (length eligible)))
       \<and> ((\<forall>(k, h) \<in> set (expertHistories t). 2 \<le> length h \<longrightarrow>
              position (h ! (length h - 1)) = position (h ! (length h - 2)) \<and> lastWords h \<noteq> [])
            \<longrightarrow> calculatePositionStability t = Finite 1)
       \<and> ((\<exists>(k, h) \<in> set (expertHistories t). 2 \<le> length h)
            \<and> (\<forall>(k, h) \<in> set (expertHistories t). 2 \<le> length h \<longrightarrow>
                  set (lastWords h) \<inter> set (previousWords h) = {})
            \<longrightarrow> calculatePositionStability t = Finite 0)"
proof -
  let ?el = "filter (\<lambda>(k, h). 2 \<le> length h) (expertHistories t)"
  let ?st = "filter (\<lambda>(k, h). 2 \<le> length h \<and> js_gt (similarity h) (Finite 0.7)) (expertHistories t)"
  have st: "?st = filter (\<lambda>(k, h). js_gt (similarity h) (Finite 0.7)) ?el"
    by (simp add: case_prod_unfold conj_commute)
  have val: "calculatePositionStability t =
      (if ?el = [] then Finite 1 else Finite (real (length ?st) / real (length ?el)))"
    using assms by (simp add: calculatePositionStability_def fold_countStable)
  have general: "calculatePositionStability t =
           (let eligible = ?el;
                stableOnes = filter (\<lambda>(k, h).
                  js_gt (js_div (Finite (real (card (set (lastWords h) \<inter> set (previousWords h)))))
                                (Finite (real (max (card (set (lastWords h)))
                                                   (card (set (previousWords h)))))))
                        (Finite 0.7)) eligible
            in if eligible = [] then Finite 1
               else Finite (real (length stableOnes) / real (length eligible)))"
    unfolding val st Let_def similarity_card[symmetric] ..
  have identical: "calculatePositionStability t = Finite 1"
    if a: "\<forall>(k, h) \<in> set (expertHistories t). 2 \<le> length h \<longrightarrow>
              position (h ! (length h - 1)) = position (h ! (length h - 2)) \<and> lastWords h \<noteq> []"
  proof -
    have "?st = ?el"
      by (rule filter_cong[OF refl]) (use a stable_identical in auto)
    then show ?thesis unfolding val by simp
  qed
  have disjoint: "calculatePositionStability t = Finite 0"
    if e: "\<exists>(k, h) \<in> set (expertHistories t). 2 \<le> length h"
      and a: "\<forall>(k, h) \<in> set (expertHistories t). 2 \<le> length h \<longrightarrow>
                  set (lastWords h) \<inter> set (previousWords h) = {}"
  proof -
    have "?st = []"
      unfolding filter_empty_conv using a unstable_disjoint by auto
    moreover from e have "?el \<noteq> []" unfolding filter_empty_conv by auto
    ultimately show ?thesis unfolding val by simp
  qed
  from general identical disjoint show ?thesis by blast
qed

lemma position_stability_examples:
  "calculatePositionStability
     (addRound
        (addRound newTracker (round_of 1) [expert_saying ''expert-a'' ''Adopt Staged rollout'' [''https://example.com/a'']])
        (round_of 2) [expert_saying ''expert-a'' ''Adopt Staged rollout'' [''https://example.com/a'']])
   = Finite 1
   \<and> calculatePositionStability
     (addRound
        (addRound newTracker (round_of 1) [expert_saying ''expert-a'' ''Adopt staged rollout'' [''https://example.com/a'']])
        (round_of 2) [expert_saying ''expert-a'' ''Reject untested policy'' [''https://example.com/a'']])
   = Finite 0"
proof -
  let ?same = "addRound
        (addRound newTracker (round_of 1) [expert_saying ''expert-a'' ''Adopt Staged rollout'' [''https://example.com/a'']])
        (round_of 2) [expert_saying ''expert-a'' ''Adopt Staged rollout'' [''https://example.com/a'']]"
  let ?moved = "addRound
        (addRound newTracker (round_of 1) [expert_saying ''expert-a'' ''Adopt staged rollout'' [''https://example.com/a'']])
        (round_of 2) [expert_saying ''expert-a'' ''Reject untested policy'' [''https://example.com/a'']]"
  have rounds: "2 \<le> length (roundHistory ?same)" "2 \<le> length (roundHistory ?moved)"
    by (simp_all add: addRound_def newTracker_def)
  have same: "\<forall>(k, h) \<in> set (expertHistories ?same). 2 \<le> length h \<longrightarrow>
      position (h ! (length h - 1)) = position (h ! (length h - 2)) \<and> lastWords h \<noteq> []"
    by (simp add: addRound_def newTracker_def expert_saying_def lastWords_def keyWords_def
        toLowerCase_def toLowerChar_def capitals_def isSpace_def)
  have moved: "(\<exists>(k, h) \<in> set (expertHistories ?moved). 2 \<le> length h)
      \<and> (\<forall>(k, h) \<in> set (expertHistories ?moved). 2 \<le> length h \<longrightarrow>
            set (lastWords h) \<inter> set (previousWords h) = {})"
    by (auto simp: addRound_def newTracker_def expert_saying_def lastWords_def previousWords_def
        keyWords_def toLowerCase_def toLowerChar_def capitals_def isSpace_def)
  from position_stability_cases[OF rounds(1)] same
  have "calculatePositionStability ?same = Finite 1" by blast
  moreover from position_stability_cases[OF rounds(2)] moved
  have "calculatePositionStability ?moved = Finite 0" by blast
  ultimately show ?thesis by blast
qed

text \<open>
  C7 (the code breaks the claim).  An expert gives the same valid position in two rounds,
  a position without a word of more than three characters.  Both word sets are empty,
  the similarity is \<open>0/0\<close>, that is \<open>NaN\<close>, the comparison with 0.7 is false, and the expert
  whose position did not change is counted as not stable: \<open>position_stability\<close> is 0, where
  the claim (and the doc comment of the function, "1 = no changes") says 1.
\<close>

theorem position_stability_unchanged_short_words:
  "validExpertResponse (expert_saying ''expert-a'' ''We do as we did so far'' [''https://example.com/a''])
   \<and> similarity
       [expert_saying ''expert-a'' ''We do as we did so far'' [''https://example.com/a''],
        expert_saying ''expert-a'' ''We do as we did so far'' [''https://example.com/a'']]
     = NaN
   \<and> calculatePositionStability
       (addRound
          (addRound newTracker (round_of 1)
             [expert_saying ''expert-a'' ''We do as we did so far'' [''https://example.com/a'']])
          (round_of 2)
          [expert_saying ''expert-a'' ''We do as we did so far'' [''https://example.com/a'']])
     = Finite 0"
  by code_simp

lemma distinct_pairs_aux:
  "distinct xs \<Longrightarrow> (\<And>i. distinct (g i)) \<Longrightarrow>
     distinct (concat (map (\<lambda>i. map (\<lambda>j. (i, j)) (g i)) xs))"
  by (induction xs) (auto simp: distinct_map inj_on_def)

lemma distinct_indexPairs: "distinct (indexPairs n)"
  unfolding indexPairs_def by (rule distinct_pairs_aux) simp_all

lemma set_indexPairs: "set (indexPairs n) = {(i, j). i < j \<and> j < n}"
  by (fastforce simp: indexPairs_def)

lemma urlsOverlap_iff:
  "urlsOverlap a b \<longleftrightarrow> set (map url a) \<inter> set (map url b) \<noteq> {}"
  by (auto simp: urlsOverlap_def filter_empty_conv)

lemma latestCitations_url_lists:
  "map (map url) (latestCitations hs) =
     map (\<lambda>(k, h). map url (sources (last h))) (filter (\<lambda>(k, h). h \<noteq> []) hs)"
  by (induction hs) (simp_all add: latestCitations_def last_conv_nth comp_def split: prod.splits)

lemma latestCitations_urls:
  "map (\<lambda>cs. set (map url cs)) (latestCitations hs) =
     map (\<lambda>(k, h). set (map url (sources (last h)))) (filter (\<lambda>(k, h). h \<noteq> []) hs)"
proof -
  have "map (\<lambda>cs. set (map url cs)) (latestCitations hs) = map set (map (map url) (latestCitations hs))"
    by (simp add: comp_def)
  also have "\<dots> = map set (map (\<lambda>(k, h). map url (sources (last h))) (filter (\<lambda>(k, h). h \<noteq> []) hs))"
    by (simp only: latestCitations_url_lists)
  also have "\<dots> = map (\<lambda>(k, h). set (map url (sources (last h)))) (filter (\<lambda>(k, h). h \<noteq> []) hs)"
    by (simp add: comp_def case_prod_unfold)
  finally show ?thesis .
qed

lemma length_latestCitations:
  "length (latestCitations hs) = length (filter (\<lambda>(k, h). h \<noteq> []) hs)"
  using arg_cong[OF latestCitations_urls[of hs], of length] by simp

lemma latestCitations_nth:
  assumes "i < length (latestCitations hs)"
  shows "set (map url (latestCitations hs ! i)) =
         map (\<lambda>(k, h). set (map url (sources (last h)))) (filter (\<lambda>(k, h). h \<noteq> []) hs) ! i"
proof -
  have "set (map url (latestCitations hs ! i)) = map (\<lambda>cs. set (map url cs)) (latestCitations hs) ! i"
    using assms by simp
  then show ?thesis by (simp only: latestCitations_urls)
qed

text \<open>
  C6 (corrected).  The claim fails for a tracker without any expert: the first line of
  \<open>calculateCitationOverlap\<close> returns 0 for an empty map, before and after a round in
  which no expert answered.
\<close>

theorem citation_overlap_no_experts_counterexample:
  "calculateCitationOverlap newTracker = Finite 0
   \<and> calculateCitationOverlap (addRound newTracker (round_of 1) []) = Finite 0
   \<and> Finite 0 \<noteq> Finite 1"
  by (simp add: calculateCitationOverlap_def addRound_def newTracker_def)

text \<open>
  C6 as amended.  Let \<open>urls\<close> list, for the experts with a recorded history, the url set
  of the expert's latest response.  Without any expert the overlap is 0; with experts but
  fewer than two url sets it is 1; with at least two it is the number of index pairs
  \<open>i < j\<close> whose url sets intersect over the number of all such pairs, and so 0 or 1 for
  two experts according to whether their url sets are disjoint.
\<close>

theorem citation_overlap_cases:
  fixes t :: ConvergenceTracker
  defines "urls \<equiv> map (\<lambda>(k, h). set (map url (sources (last h))))
                       (filter (\<lambda>(k, h). h \<noteq> []) (expertHistories t))"
  shows "(expertHistories t = [] \<longrightarrow> calculateCitationOverlap t = Finite 0)
       \<and> (expertHistories t \<noteq> [] \<and> length urls < 2 \<longrightarrow> calculateCitationOverlap t = Finite 1)
       \<and> (2 \<le> length urls \<longrightarrow>
            calculateCitationOverlap t =
              Finite (real (card {(i, j). i < j \<and> j < length urls \<and> urls ! i \<inter> urls ! j \<noteq> {}})
                      / real (card {(i, j). i < j \<and> j < length urls})))
       \<and> (length urls = 2 \<longrightarrow>
            calculateCitationOverlap t = (if urls ! 0 \<inter> urls ! 1 = {} then Finite 0 else Finite 1))"
proof -
  let ?cs = "latestCitations (expertHistories t)"
  let ?n = "length urls"
  have n: "length ?cs = ?n" by (simp add: urls_def length_latestCitations)
  have nth: "set (map url (?cs ! i)) = urls ! i" if "i < ?n" for i
    using latestCitations_nth[of i "expertHistories t"] that n by (simp add: urls_def)
  have zero: "calculateCitationOverlap t = Finite 0" if "expertHistories t = []"
    using that by (simp add: calculateCitationOverlap_def)
  have one: "calculateCitationOverlap t = Finite 1" if "expertHistories t \<noteq> []" "?n < 2"
    using that n by (simp add: calculateCitationOverlap_def)
  have many: "calculateCitationOverlap t =
              Finite (real (card {(i, j). i < j \<and> j < ?n \<and> urls ! i \<inter> urls ! j \<noteq> {}})
                      / real (card {(i, j). i < j \<and> j < ?n}))" if two: "2 \<le> ?n"
  proof -
    from two have ne: "expertHistories t \<noteq> []" by (auto simp: urls_def)
    have tot: "length (indexPairs ?n) = card {(i, j). i < j \<and> j < ?n}"
      using distinct_card[OF distinct_indexPairs, of ?n] by (simp add: set_indexPairs)
    have "(0, 1) \<in> set (indexPairs ?n)" using two by (simp add: set_indexPairs)
    then have pos: "length (indexPairs ?n) > 0" by (cases "indexPairs ?n") auto
    have "filter (\<lambda>(i, j). urlsOverlap (?cs ! i) (?cs ! j)) (indexPairs ?n)
          = filter (\<lambda>(i, j). urls ! i \<inter> urls ! j \<noteq> {}) (indexPairs ?n)"
      by (rule filter_cong[OF refl]) (auto simp: set_indexPairs urlsOverlap_iff nth simp del: set_map)
    then have "length (filter (\<lambda>(i, j). urlsOverlap (?cs ! i) (?cs ! j)) (indexPairs ?n))
          = card ({p. case p of (i, j) \<Rightarrow> urls ! i \<inter> urls ! j \<noteq> {}} \<inter> set (indexPairs ?n))"
      by (simp only: distinct_length_filter[OF distinct_indexPairs])
    also have "{p. case p of (i, j) \<Rightarrow> urls ! i \<inter> urls ! j \<noteq> {}} \<inter> set (indexPairs ?n)
          = {(i, j). i < j \<and> j < ?n \<and> urls ! i \<inter> urls ! j \<noteq> {}}"
      by (auto simp: set_indexPairs)
    finally have ov: "length (filter (\<lambda>(i, j). urlsOverlap (?cs ! i) (?cs ! j)) (indexPairs ?n))
          = card {(i, j). i < j \<and> j < ?n \<and> urls ! i \<inter> urls ! j \<noteq> {}}" .
    have "calculateCitationOverlap t =
            Finite (real (length (filter (\<lambda>(i, j). urlsOverlap (?cs ! i) (?cs ! j)) (indexPairs ?n)))
                    / real (length (indexPairs ?n)))"
      using ne two pos n by (simp add: calculateCitationOverlap_def Let_def)
    then show ?thesis by (simp only: ov tot)
  qed
  have pair: "calculateCitationOverlap t = (if urls ! 0 \<inter> urls ! 1 = {} then Finite 0 else Finite 1)"
    if two: "?n = 2"
  proof -
    have a: "{(i, j). i < j \<and> j < (2::nat)} = {(0, 1)}" by auto
    have b: "{(i, j). i < j \<and> j < (2::nat) \<and> urls ! i \<inter> urls ! j \<noteq> {}}
             = (if urls ! 0 \<inter> urls ! 1 = {} then {} else {(0, 1)})"
      by (auto simp: less_Suc_eq numeral_2_eq_2)
    from many two show ?thesis by (simp add: a b)
  qed
  from zero one many pair show ?thesis by blast
qed

theorem citation_overlap_cases_witness:
  "calculateCitationOverlap newTracker = Finite 0
   \<and> calculateCitationOverlap
       (addRound newTracker (round_of 1) [expert_saying ''A'' ''Adopt staged rollout'' [''url1'']])
     = Finite 1
   \<and> calculateCitationOverlap
       (addRound newTracker (round_of 1)
          [expert_saying ''A'' ''Adopt staged rollout'' [''url1'', ''url2''],
           expert_saying ''B'' ''Adopt staged rollout'' [''url3'']])
     = Finite 0
   \<and> calculateCitationOverlap
       (addRound newTracker (round_of 1)
          [expert_saying ''A'' ''Adopt staged rollout'' [''url1'', ''url2''],
           expert_saying ''B'' ''Adopt staged rollout'' [''url1'', ''url4'']])
     = Finite 1"
proof -
  let ?one = "addRound newTracker (round_of 1) [expert_saying ''A'' ''Adopt staged rollout'' [''url1'']]"
  let ?apart = "addRound newTracker (round_of 1)
          [expert_saying ''A'' ''Adopt staged rollout'' [''url1'', ''url2''],
           expert_saying ''B'' ''Adopt staged rollout'' [''url3'']]"
  let ?shared = "addRound newTracker (round_of 1)
          [expert_saying ''A'' ''Adopt staged rollout'' [''url1'', ''url2''],
           expert_saying ''B'' ''Adopt staged rollout'' [''url1'', ''url4'']]"
  have "expertHistories newTracker = []" by (simp add: newTracker_def)
  with citation_overlap_cases[of newTracker]
  have none: "calculateCitationOverlap newTracker = Finite 0" by blast
  have "expertHistories ?one \<noteq> []
      \<and> length (map (\<lambda>(k, h). set (map url (sources (last h))))
                  (filter (\<lambda>(k, h). h \<noteq> []) (expertHistories ?one))) < 2"
    by (simp add: addRound_def newTracker_def expert_saying_def)
  with citation_overlap_cases[of ?one]
  have one: "calculateCitationOverlap ?one = Finite 1" by blast
  have "length (map (\<lambda>(k, h). set (map url (sources (last h))))
                  (filter (\<lambda>(k, h). h \<noteq> []) (expertHistories ?apart))) = 2"
    by (simp add: addRound_def newTracker_def expert_saying_def)
  with citation_overlap_cases[of ?apart]
  have "calculateCitationOverlap ?apart =
      (if map (\<lambda>(k, h). set (map url (sources (last h))))
             (filter (\<lambda>(k, h). h \<noteq> []) (expertHistories ?apart)) ! 0
          \<inter> map (\<lambda>(k, h). set (map url (sources (last h))))
             (filter (\<lambda>(k, h). h \<noteq> []) (expertHistories ?apart)) ! 1 = {}
       then Finite 0 else Finite 1)" by blast
  then have apart: "calculateCitationOverlap ?apart = Finite 0"
    by (simp add: addRound_def newTracker_def expert_saying_def)
  have "length (map (\<lambda>(k, h). set (map url (sources (last h))))
                  (filter (\<lambda>(k, h). h \<noteq> []) (expertHistories ?shared))) = 2"
    by (simp add: addRound_def newTracker_def expert_saying_def)
  with citation_overlap_cases[of ?shared]
  have "calculateCitationOverlap ?shared =
      (if map (\<lambda>(k, h). set (map url (sources (last h))))
             (filter (\<lambda>(k, h). h \<noteq> []) (expertHistories ?shared)) ! 0
          \<inter> map (\<lambda>(k, h). set (map url (sources (last h))))
             (filter (\<lambda>(k, h). h \<noteq> []) (expertHistories ?shared)) ! 1 = {}
       then Finite 0 else Finite 1)" by blast
  then have shared: "calculateCitationOverlap ?shared = Finite 1"
    by (simp add: addRound_def newTracker_def expert_saying_def)
  from none one apart shared show ?thesis by blast
qed

section \<open>Properties of the final report\<close>

lemma fold_largest:
  fixes f :: "ExpertCluster \<Rightarrow> ExpertCluster \<Rightarrow> ExpertCluster"
  defines "f \<equiv> \<lambda>current largest.
             if length (expert_ids current) > length (expert_ids largest) then current else largest"
  shows "fold f cs init \<in> insert init (set cs)
       \<and> length (expert_ids init) \<le> length (expert_ids (fold f cs init))
       \<and> (\<forall>c \<in> set cs. length (expert_ids c) \<le> length (expert_ids (fold f cs init)))"
proof (induction cs arbitrary: init)
  case Nil
  then show ?case by simp
next
  case (Cons c cs)
  from Cons[of "f c init"] show ?case
    by (auto simp: f_def split: if_splits)
qed

lemma largestClusterIds_largest:
  assumes "clusters synth \<noteq> []"
  shows "\<exists>c \<in> set (clusters synth). largestClusterIds synth = expert_ids c
           \<and> (\<forall>d \<in> set (clusters synth). length (expert_ids d) \<le> length (expert_ids c))"
proof -
  from assms obtain c0 cs where cl: "clusters synth = c0 # cs" by (cases "clusters synth") auto
  let ?f = "\<lambda>current largest.
             if length (expert_ids current) > length (expert_ids largest) then current else largest"
  from fold_largest[of "c0 # cs" c0] cl show ?thesis
    by (auto simp: largestClusterIds_def simp del: fold_simps)
qed

text \<open>
  C4 (corrected).  The claim fails twice.  The dissenting views are drawn from the
  responses of all rounds: with \<open>expert-x\<close> answering in rounds 1 and 2 and the final
  synthesis holding one cluster of \<open>expert-y\<close>, the report lists both responses of
  \<open>expert-x\<close>, the one of round 1 included, which is not among the final round's expert
  positions.  And when the final synthesis has no clusters, every response of every
  round is listed, not none.
\<close>

theorem dissenting_views_all_rounds_counterexample:
  "map_sum id (\<lambda>report. map view_position (dissenting_views report))
     (generateFinalReportWithSupport (trackerAfter (roundsWith [cluster_y])) (roundsWith [cluster_y]))
   = Inr [''Delay the rollout entirely'', ''Pilot the rollout first'']
   \<and> map position (expertResponses (last (roundsWith [cluster_y])))
     = [''Pilot the rollout first'', ''Adopt staged rollout'']
   \<and> map_sum id (\<lambda>report. map view_position (dissenting_views report))
     (generateFinalReportWithSupport (trackerAfter (roundsWith [])) (roundsWith []))
   = Inr [''Delay the rollout entirely'', ''Pilot the rollout first'', ''Adopt staged rollout'']"
  by (simp add: generateFinalReportWithSupport_def trackerAfter_def roundsWith_def addRound_def
      newTracker_def identifyDissentingViews_def largestClusterIds_def cluster_y_def
      expert_saying_def round_of_def)

text \<open>
  C4 as amended.  The report's \<open>dissenting_views\<close> holds, in round order, one entry for
  every expert response of every round whose \<open>agent_id\<close> is absent from the expert ids of
  the largest cluster of the final round's synthesis (a cluster of that synthesis that
  no other exceeds in size); when that synthesis has no clusters the largest cluster has
  no expert ids, so every response of every round is listed.  \<open>expert_positions\<close> holds
  the final round's responses only.
\<close>

theorem dissenting_views_of_report:
  assumes "generateFinalReportWithSupport tracker roundResults = Inr report"
    and "final = synthesis (last roundResults)"
  shows "dissenting_views report =
           map (\<lambda>e. \<lparr>view_position = position e, view_expert_ids = [agent_id e],
                      view_reasoning = reasoning e, view_sources = sources e\<rparr>)
             (filter (\<lambda>e. agent_id e \<notin> set (largestClusterIds final))
                (concat (map expertResponses roundResults)))
       \<and> (clusters final = [] \<longrightarrow> largestClusterIds final = [])
       \<and> (clusters final \<noteq> [] \<longrightarrow>
            (\<exists>c \<in> set (clusters final). largestClusterIds final = expert_ids c
               \<and> (\<forall>d \<in> set (clusters final). length (expert_ids d) \<le> length (expert_ids c))))
       \<and> expert_positions report = expertResponses (last roundResults)"
proof -
  from assms(1) have ne: "roundResults \<noteq> []"
    by (auto simp: generateFinalReportWithSupport_def split: if_splits)
  from assms(1) ne have rep: "report =
      \<lparr>expert_positions = expertResponses (last roundResults),
       contrarian_observations = concat (map contrarianResponses roundResults),
       dissenting_views = identifyDissentingViews final (concat (map expertResponses roundResults)),
       round_history = map synthesis roundResults,
       failed_experts = concat (map (\<lambda>r. case failedExperts r of Some f \<Rightarrow> f | None \<Rightarrow> [])
                                  roundResults)\<rparr>"
    by (auto simp: generateFinalReportWithSupport_def Let_def last_conv_nth assms(2) split: if_splits)
  have dv: "identifyDissentingViews final rs =
           map (\<lambda>e. \<lparr>view_position = position e, view_expert_ids = [agent_id e],
                      view_reasoning = reasoning e, view_sources = sources e\<rparr>)
             (filter (\<lambda>e. agent_id e \<notin> set (largestClusterIds final)) rs)" for rs
    by (simp add: identifyDissentingViews_def Let_def)
  have none: "largestClusterIds final = []" if "clusters final = []"
    using that by (simp add: largestClusterIds_def)
  from rep dv none largestClusterIds_largest[of final] show ?thesis by simp
qed

theorem dissenting_views_of_report_witness:
  "map_sum id (\<lambda>report. map view_position (dissenting_views report))
     (generateFinalReportWithSupport (trackerAfter (roundsWith [cluster_y])) (roundsWith [cluster_y]))
   = Inr [''Delay the rollout entirely'', ''Pilot the rollout first'']
   \<and> map_sum id (\<lambda>report. map view_position (dissenting_views report))
     (generateFinalReportWithSupport (trackerAfter (roundsWith [])) (roundsWith []))
   = Inr [''Delay the rollout entirely'', ''Pilot the rollout first'', ''Adopt staged rollout'']"
proof -
  let ?view = "\<lambda>e. \<lparr>view_position = position e, view_expert_ids = [agent_id e],
                      view_reasoning = reasoning e, view_sources = sources e\<rparr>"
  obtain report where r: "generateFinalReportWithSupport (trackerAfter (roundsWith [cluster_y]))
        (roundsWith [cluster_y]) = Inr report"
    by (simp add: generateFinalReportWithSupport_def trackerAfter_def roundsWith_def addRound_def
        newTracker_def)
  have f: "(round_of 2)\<lparr>clusters := [cluster_y]\<rparr> = synthesis (last (roundsWith [cluster_y]))"
    by (simp add: roundsWith_def)
  have "clusters ((round_of 2)\<lparr>clusters := [cluster_y]\<rparr>) \<noteq> []" by simp
  with dissenting_views_of_report[OF r f]
  have dv: "dissenting_views report =
           map ?view
             (filter (\<lambda>e. agent_id e \<notin> set (largestClusterIds ((round_of 2)\<lparr>clusters := [cluster_y]\<rparr>)))
                (concat (map expertResponses (roundsWith [cluster_y]))))"
    and "\<exists>c \<in> set (clusters ((round_of 2)\<lparr>clusters := [cluster_y]\<rparr>)).
            largestClusterIds ((round_of 2)\<lparr>clusters := [cluster_y]\<rparr>) = expert_ids c"
    by blast+
  then have ids: "largestClusterIds ((round_of 2)\<lparr>clusters := [cluster_y]\<rparr>) = [''expert-y'']"
    by (simp add: cluster_y_def)
  from dv have one: "map view_position (dissenting_views report)
       = [''Delay the rollout entirely'', ''Pilot the rollout first'']"
    unfolding ids by (simp add: roundsWith_def expert_saying_def)
  obtain report' where r': "generateFinalReportWithSupport (trackerAfter (roundsWith []))
        (roundsWith []) = Inr report'"
    by (simp add: generateFinalReportWithSupport_def trackerAfter_def roundsWith_def addRound_def
        newTracker_def)
  have f': "(round_of 2)\<lparr>clusters := []\<rparr> = synthesis (last (roundsWith []))"
    by (simp add: roundsWith_def)
  have "clusters ((round_of 2)\<lparr>clusters := []\<rparr>) = []" by simp
  with dissenting_views_of_report[OF r' f']
  have "dissenting_views report' =
           map ?view
             (filter (\<lambda>e. agent_id e \<notin> set (largestClusterIds ((round_of 2)\<lparr>clusters := []\<rparr>)))
                (concat (map expertResponses (roundsWith []))))"
    and "largestClusterIds ((round_of 2)\<lparr>clusters := []\<rparr>) = []"
    by blast+
  then have two: "map view_position (dissenting_views report')
       = [''Delay the rollout entirely'', ''Pilot the rollout first'', ''Adopt staged rollout'']"
    by (simp add: roundsWith_def expert_saying_def)
  from r one r' two show ?thesis by simp
qed

section \<open>Properties of the search client\<close>

text \<open>
  C5 (the code breaks the claim).  A transport that answers with the http status 503 is
  asked once: the interceptor of the constructor replaces the axios error by a plain
  error without \<open>response\<close>, so the test \<open>is5xx\<close> of the \<open>catch\<close> block never holds, and the
  message does not contain \<open>timeout\<close>.  \<open>search\<close> throws after one request, without a pause.
\<close>

theorem search_does_not_retry_5xx: "search
     (\<lambda>k. Inl \<lparr>err_message = ''Request failed with status code 503'',
                response = Some \<lparr>status = 503, data_error = None\<rparr>\<rparr>)
     (Inr :: string \<Rightarrow> JsError + string)
   = \<lparr>outcome = Inl \<lparr>err_message =
          ''Perplexity API failed: Perplexity API failed: Request failed with status code 503'',
          response = None\<rparr>,
      requests = 1, pauses = []\<rparr>"
  by (simp add: search_def maxRetries_def post_def interceptor_def failureMessage_def truthy_def)

text \<open>
  For comparison, a transport that times out every time is tried three times, with
  pauses of 1 and 2 seconds; no pause of 4 seconds is ever slept.
\<close>

lemma search_retries_timeouts: "search
     (\<lambda>k. Inl \<lparr>err_message = ''timeout of 30000ms exceeded'', response = None\<rparr>)
     (Inr :: string \<Rightarrow> JsError + string)
   = \<lparr>outcome = Inl \<lparr>err_message =
          ''Perplexity API failed: Perplexity API failed: timeout of 30000ms exceeded'',
          response = None\<rparr>,
      requests = 3, pauses = [1000, 2000]\<rparr>"
  by (simp add: search_def maxRetries_def post_def interceptor_def failureMessage_def truthy_def)

text \<open>Whatever the transport does, \<open>search\<close> makes at most three requests.\<close>

lemma search_bounds:
  "requests (search transport extract) \<le> 3
   \<and> pauses (search transport extract) \<in> {[], [1000], [1000, 2000]}"
  by (simp add: search_def maxRetries_def Let_def split: sum.splits)

section \<open>Properties of the completion wrapper\<close>

lemma alloc_owns: "owns n st \<Longrightarrow> owns n (alloc obj st)"
  by (simp add: owns_def alloc_def)

lemma alloc_frame: "owns n st \<Longrightarrow> take n (heap (alloc obj st)) = take n (heap st)"
  by (simp add: owns_def alloc_def)

lemma setModel_owns: "owns n st \<Longrightarrow> owns n (setModel m st)"
  by (simp add: owns_def setModel_def)

lemma setModel_frame: "owns n st \<Longrightarrow> take n (heap (setModel m st)) = take n (heap st)"
  by (simp add: owns_def setModel_def)

lemma create_owns: "owns n st \<Longrightarrow> owns n (snd (create service st))"
  by (simp add: owns_def create_def)

lemma runOnce_owns: "owns n st \<Longrightarrow> owns n (snd (runOnce service st))"
  by (auto simp: runOnce_def split: prod.splits sum.splits
      dest!: create_owns[of n _ service] setModel_owns[of n _ "''gpt-4o''"] simp: create_def owns_def setModel_def)

lemma runOnce_frame: "owns n st \<Longrightarrow> take n (heap (snd (runOnce service st))) = take n (heap st)"
  by (auto simp: runOnce_def create_def setModel_def owns_def split: prod.splits sum.splits)

lemma if_chain_Some:
  "(if c1 then Some a1 else if c2 then Some a2 else if c3 then Some a3
    else if c4 then Some a4 else if c5 then Some a5 else None) = Some x
   \<Longrightarrow> x = a1 \<or> x = a2 \<or> x = a3 \<or> x = a4 \<or> x = a5"
  by (simp split: if_splits)

lemma onError_cases:
  assumes "onError err st = Some st'"
  shows "(\<exists>obj. st' = alloc obj st) \<or> st' = setModel ''gpt-4o'' st"
  using if_chain_Some[OF assms[unfolded onError_def Let_def]] by blast

lemma onError_owns: "owns n st \<Longrightarrow> onError err st = Some st' \<Longrightarrow> owns n st'"
  using onError_cases[of err st st'] by (auto simp: alloc_owns setModel_owns)

lemma onError_frame: "owns n st \<Longrightarrow> onError err st = Some st' \<Longrightarrow> take n (heap st') = take n (heap st)"
  using onError_cases[of err st st'] by (auto simp: alloc_frame setModel_frame)


lemma attempts_frame:
  "owns n st \<Longrightarrow> take n (heap (snd (attempts k service st))) = take n (heap st)"
proof (induction k arbitrary: st)
  case 0
  then show ?case by simp
next
  case (Suc k)
  obtain out st1 where ro: "runOnce service st = (out, st1)" by (cases "runOnce service st")
  from Suc.prems have o1: "owns n st1" and f1: "take n (heap st1) = take n (heap st)"
    using runOnce_owns[of n st service] runOnce_frame[of n st service] ro by simp_all
  show ?case
  proof (cases out)
    case (Inr res)
    with ro f1 show ?thesis by simp
  next
    case (Inl err)
    show ?thesis
    proof (cases "onError err st1")
      case None
      with ro Inl f1 show ?thesis by simp
    next
      case (Some st2)
      from onError_owns[OF o1 Some] onError_frame[OF o1 Some] Suc.IH[of st2] f1
      show ?thesis using ro Inl Some by simp
    qed
  qed
qed





lemma runOnce_retry:
  assumes "r_ref st < length (heap st)"
    and "service (length (sent st)) (heap st ! r_ref st) = Inr res0"
    and "noUsableText res0" and "truthy (model (heap st ! r_ref st))"
    and "model (heap st ! r_ref st) \<noteq> Some ''gpt-4o''"
  shows "fst (runOnce service st) =
           service (length (sent st) + 1) ((heap st ! r_ref st)\<lparr>model := Some ''gpt-4o''\<rparr>)"
    and "sent (snd (runOnce service st)) =
           sent st @ [heap st ! r_ref st, (heap st ! r_ref st)\<lparr>model := Some ''gpt-4o''\<rparr>]"
  using assms by (simp_all add: runOnce_def create_def setModel_def)




text \<open>
  C10.  Whatever the service does and whatever the outcome, the objects that existed
  before the call, the caller's request among them, are the same after it: removing
  \<open>temperature\<close>, renaming the token limit and substituting the model are done on objects
  the wrapper made itself.
\<close>

theorem safeChatCompletion_leaves_request_unchanged:
  "take (length objects) (heap (snd (safeChatCompletion service objects req))) = objects
   \<and> (\<forall>a < length objects. heap (snd (safeChatCompletion service objects req)) ! a = objects ! a)"
proof -
  let ?st0 = "alloc (case req of None \<Rightarrow> emptyRequest | Some a \<Rightarrow> objects ! a)
              \<lparr>heap = objects, r_ref = 0, sent = []\<rparr>"
  have o: "owns (length objects) ?st0" by (simp add: owns_def alloc_def)
  have "take (length objects) (heap ?st0) = objects" by (simp add: alloc_def)
  with attempts_frame[OF o, of 5 service]
  have t: "take (length objects) (heap (snd (safeChatCompletion service objects req))) = objects"
    by (simp add: safeChatCompletion_def)
  have "heap (snd (safeChatCompletion service objects req)) ! a = objects ! a"
    if "a < length objects" for a
    using nth_take[OF that, of "heap (snd (safeChatCompletion service objects req))"] t by simp
  with t show ?thesis by blast
qed

theorem safeChatCompletion_leaves_request_unchanged_witness:
  "heap (snd (safeChatCompletion picky_service [sample_request] (Some 0))) ! 0 = sample_request
   \<and> sent (snd (safeChatCompletion picky_service [sample_request] (Some 0)))
     = [sample_request,
        sample_request\<lparr>temperature := None\<rparr>,
        sample_request\<lparr>temperature := None, max_tokens := None, max_completion_tokens := Some 2000\<rparr>,
        sample_request\<lparr>temperature := None, max_tokens := None, max_completion_tokens := Some 2000,
                        model := Some ''gpt-4o''\<rparr>]
   \<and> fst (safeChatCompletion picky_service [sample_request] (Some 0)) = Inr (text_response ''ok'')"
proof -
  have "(0::nat) < length [sample_request]" by simp
  with safeChatCompletion_leaves_request_unchanged[of "[sample_request]" picky_service "Some 0"]
  have "heap (snd (safeChatCompletion picky_service [sample_request] (Some 0))) ! 0
          = [sample_request] ! 0" by blast
  moreover have "sent (snd (safeChatCompletion picky_service [sample_request] (Some 0)))
     = [sample_request,
        sample_request\<lparr>temperature := None\<rparr>,
        sample_request\<lparr>temperature := None, max_tokens := None, max_completion_tokens := Some 2000\<rparr>,
        sample_request\<lparr>temperature := None, max_tokens := None, max_completion_tokens := Some 2000,
                        model := Some ''gpt-4o''\<rparr>]
   \<and> fst (safeChatCompletion picky_service [sample_request] (Some 0)) = Inr (text_response ''ok'')"
    by code_simp
  ultimately show ?thesis by simp
qed

end
